theory Spec2Isabelle
  imports Complex_Main "HOL-Library.AList" "HOL-Library.Multiset"
begin

section \<open>Data model of app.py\<close>

text \<open>
  The game document of \<^verbatim>\<open>load_state\<close> is a dictionary of dictionaries and lists. Each
  dictionary with a fixed set of keys is a record here; the field names carry a one-letter
  prefix of their record (\<open>g_\<close> game, \<open>b_\<close> bond, \<open>e_\<close> event, \<open>p_\<close> price, \<open>t_\<close> team,
  \<open>o_\<close> order, \<open>l_\<close> ledger entry) because several dictionaries share keys. Python floats
  are idealised as reals: rounding, overflow and NaN are outside the model, but a float
  division by zero, which Python raises as \<^verbatim>\<open>ZeroDivisionError\<close>, is a branch of the model.
  Timestamps (\<^verbatim>\<open>datetime.utcnow().isoformat()\<close>) are passed in as a string.
\<close>

datatype py_error = ZeroDivisionError | TypeError

datatype phase = LOBBY | TRADING_ON | TRADING_OFF | FIN

datatype event_kind = MARKET | IDIOS

datatype side = BUY | SELL

record game =
  g_game_code :: string
  g_rondas_totales :: int
  g_ronda_actual :: int
  g_estado :: phase
  g_fraccion_anio :: real
  g_bid_bp :: real
  g_ask_bp :: real
  g_comision_bps :: real
  g_created_at :: string
  g_cash_inicial :: real

record bond =
  b_bond_id :: string
  b_nombre :: string
  b_valor_nominal :: real
  b_tasa_cupon_anual :: real
  b_frecuencia_anual :: int
  b_vencimiento_anios :: real
  b_spread_bps :: real

record event =
  e_round :: int
  e_tipo :: event_kind
  e_bond_id :: "string option"
  e_delta_tasa_bps :: real
  e_impacto_bps :: real
  e_descripcion :: string
  e_publicado :: bool

record price =
  p_ronda :: int
  p_bond_id :: string
  p_y_efectiva :: real
  p_precio_mid :: real
  p_precio_bid :: real
  p_precio_ask :: real
  p_ts_publicacion :: string

record team =
  t_team_id :: string
  t_team_name :: string
  t_pin :: string
  t_activo :: bool
  t_created_at :: string
  t_cash_inicial :: real

record order =
  o_ts :: string
  o_team_id :: string
  o_bond_id :: string
  o_side :: side
  o_qty :: real
  o_price_exec :: real
  o_fees :: real
  o_ronda :: int

record ledger_entry =
  l_team_id :: string
  l_cash_delta :: real

record state =
  game :: game
  bonds :: "bond list"
  events :: "event list"
  prices :: "price list"
  teams :: "team list"
  orders :: "order list"
  ledger :: "ledger_entry list"


section \<open>Bond pricing\<close>

text \<open>
  The coupon loop \<^verbatim>\<open>for k in range(1, N + 1): pv += C / ((1 + i) ** k)\<close>. A float
  division by a zero power raises, whatever the numerator.
\<close>

fun pv_loop :: "real \<Rightarrow> real \<Rightarrow> nat list \<Rightarrow> real \<Rightarrow> py_error + real" where
  "pv_loop C i [] pv = Inr pv"
| "pv_loop C i (k # ks) pv =
     (if (1 + i) ^ k = 0 then Inl ZeroDivisionError
      else pv_loop C i ks (pv + C / ((1 + i) ^ k)))"

definition price_bond_mid :: "bond \<Rightarrow> real \<Rightarrow> real \<Rightarrow> int \<Rightarrow> py_error + real" where
  "price_bond_mid bond ytm_anual frac_anio rounds_elapsed =
     (let f = (if b_frecuencia_anual bond = 0 then 2 else b_frecuencia_anual bond);
          V = b_valor_nominal bond;
          cup_anual = b_tasa_cupon_anual bond;
          venc_ini = b_vencimiento_anios bond;
          venc_rest = max 0 (venc_ini - real_of_int rounds_elapsed * frac_anio);
          dt = 1 / real_of_int f;
          N = nat (max 1 \<lceil>venc_rest / dt\<rceil>);
          C = V * (cup_anual / real_of_int f);
          i = ytm_anual / real_of_int f
      in case pv_loop C i [1..<Suc N] 0 of
           Inl err \<Rightarrow> Inl err
         | Inr pv \<Rightarrow>
             (if (1 + i) ^ N = 0 then Inl ZeroDivisionError
              else Inr (max (1 / 100) (pv + V / ((1 + i) ^ N)))))"

definition bid_ask_from_mid :: "real \<Rightarrow> real \<Rightarrow> real \<Rightarrow> real \<times> real" where
  "bid_ask_from_mid mid bid_bp ask_bp =
     (mid * (1 - bid_bp / 10000), mid * (1 + ask_bp / 10000))"

definition effective_ytm :: "real \<Rightarrow> real \<Rightarrow> real \<Rightarrow> real" where
  "effective_ytm spread_bps delta_market_bps idios_bps =
     (spread_bps + delta_market_bps + idios_bps) / 10000"

text \<open>Bond B1 of the example scenario built into the moderator panel.\<close>

definition bond_B1 :: bond where
  "bond_B1 = \<lparr>b_bond_id = ''B1'', b_nombre = ''Bono Tesoro 2028'', b_valor_nominal = 1000,
               b_tasa_cupon_anual = 8 / 100, b_frecuencia_anual = 2,
               b_vencimiento_anios = 3, b_spread_bps = 50\<rparr>"

section \<open>Publishing the prices of a round\<close>

text \<open>
  Python's \<^verbatim>\<open>str\<close> on the optional bond identifier of an event: \<^verbatim>\<open>str(None)\<close> is the
  text \<^verbatim>\<open>None\<close>. Bond identifiers of bonds and prices are strings already.
\<close>

definition str_opt :: "string option \<Rightarrow> string" where
  "str_opt x = (case x of None \<Rightarrow> ''None'' | Some s \<Rightarrow> s)"

definition round_ev_mkt :: "event list \<Rightarrow> int \<Rightarrow> real" where
  "round_ev_mkt evs r =
     sum_list (map e_delta_tasa_bps (filter (\<lambda>e. e_round e = r \<and> e_tipo e = MARKET) evs))"

definition round_idios :: "event list \<Rightarrow> int \<Rightarrow> bond \<Rightarrow> real" where
  "round_idios evs r b =
     sum_list (map e_impacto_bps
       (filter (\<lambda>e. e_round e = r \<and> e_tipo e = IDIOS \<and> str_opt (e_bond_id e) = b_bond_id b) evs))"

text \<open>The loop over the bonds. An exception of the pricing function leaves the loop.\<close>

fun new_prices_loop ::
  "string \<Rightarrow> game \<Rightarrow> event list \<Rightarrow> real \<Rightarrow> bond list \<Rightarrow> price list \<Rightarrow> py_error + price list"
where
  "new_prices_loop now g evs ev_mkt [] new_prices = Inr new_prices"
| "new_prices_loop now g evs ev_mkt (b # bs) new_prices =
     (let r = g_ronda_actual g;
          idios = round_idios evs r b;
          ytm = effective_ytm (b_spread_bps b) ev_mkt idios
      in case price_bond_mid b ytm (g_fraccion_anio g) (r - 1) of
           Inl err \<Rightarrow> Inl err
         | Inr mid \<Rightarrow>
             (case bid_ask_from_mid mid (g_bid_bp g) (g_ask_bp g) of
                (bid, ask) \<Rightarrow>
                  new_prices_loop now g evs ev_mkt bs
                    (new_prices @
                       [\<lparr>p_ronda = r, p_bond_id = b_bond_id b, p_y_efectiva = ytm,
                         p_precio_mid = mid, p_precio_bid = bid, p_precio_ask = ask,
                         p_ts_publicacion = now\<rparr>])))"

text \<open>
  The state is mutated only after the loop, so an exception leaves the document as it
  was: the result \<open>Inl\<close> carries no state.
\<close>

definition publish_prices_for_round :: "string \<Rightarrow> state \<Rightarrow> py_error + state" where
  "publish_prices_for_round now s =
     (let g = game s;
          r = g_ronda_actual g;
          ev_mkt = round_ev_mkt (events s) r
      in case new_prices_loop now g (events s) ev_mkt (bonds s) [] of
           Inl err \<Rightarrow> Inl err
         | Inr new_prices \<Rightarrow>
             Inr (s\<lparr>events := map (\<lambda>e. if e_round e = r then e\<lparr>e_publicado := True\<rparr> else e)
                                (events s),
                    prices := filter (\<lambda>p. p_ronda p \<noteq> r) (prices s) @ new_prices,
                    game := g\<lparr>g_estado := TRADING_ON\<rparr>\<rparr>))"

section \<open>Teams, positions and cash\<close>

text \<open>
  A Python dictionary that is iterated keeps insertion order: it is an association list
  with distinct keys, written with \<open>AList.update\<close> (replace in place, else append).
\<close>

definition dict_get :: "('k \<times> 'v) list \<Rightarrow> 'k \<Rightarrow> 'v \<Rightarrow> 'v" where
  "dict_get d k dflt = (case map_of d k of None \<Rightarrow> dflt | Some v \<Rightarrow> v)"

definition get_prices_dict :: "state \<Rightarrow> int \<Rightarrow> (string \<times> real) list" where
  "get_prices_dict s ronda =
     fold (\<lambda>p d. AList.update (p_bond_id p) (p_precio_mid p) d)
          (filter (\<lambda>p. p_ronda p = ronda) (prices s)) []"

definition team_get :: "state \<Rightarrow> string \<Rightarrow> team option" where
  "team_get s team_name = find (\<lambda>t. t_team_name t = team_name) (teams s)"

definition ledger_step :: "string \<Rightarrow> ledger_entry \<Rightarrow> real \<Rightarrow> real" where
  "ledger_step tid l cash = (if l_team_id l = tid then cash + l_cash_delta l else cash)"

fun order_step ::
  "string \<Rightarrow> order \<Rightarrow> (string \<times> real) list \<times> real \<Rightarrow> (string \<times> real) list \<times> real"
where
  "order_step tid ord (pos, cash) =
     (if o_team_id ord \<noteq> tid then (pos, cash)
      else let qty = o_qty ord; px = o_price_exec ord; fees = o_fees ord
           in if o_side ord = BUY
              then (AList.update (o_bond_id ord) (dict_get pos (o_bond_id ord) 0 + qty) pos,
                    cash - (qty * px + fees))
              else (AList.update (o_bond_id ord) (dict_get pos (o_bond_id ord) 0 - qty) pos,
                    cash + (qty * px - fees)))"

definition team_positions_and_cash :: "state \<Rightarrow> string \<Rightarrow> (string \<times> real) list \<times> real" where
  "team_positions_and_cash s team_name =
     (case team_get s team_name of
        None \<Rightarrow> ([], 0)
      | Some team \<Rightarrow>
          (let cash = fold (ledger_step (t_team_id team)) (ledger s) (t_cash_inicial team)
           in fold (order_step (t_team_id team)) (orders s) ([], cash)))"

section \<open>Order execution\<close>

text \<open>
  The messages of the order engine, by content: \<^verbatim>\<open>No hay precios publicados para este
  bono/ronda.\<close>, \<^verbatim>\<open>Cash insuficiente.\<close>, \<^verbatim>\<open>No posee cantidad suficiente para vender.\<close>,
  \<^verbatim>\<open>OK\<close>, and the formatted confirmation with its arguments.
\<close>

datatype message =
    No_hay_precios
  | Cash_insuficiente
  | No_posee_cantidad
  | OK
  | Orden_ejecutada side real string real real

definition can_exec_order ::
  "state \<Rightarrow> string \<Rightarrow> side \<Rightarrow> string \<Rightarrow> real \<Rightarrow> bool \<times> message \<times> real \<times> real" where
  "can_exec_order s team_name sd bond_id qty =
     (let g = game s; r = g_ronda_actual g
      in case find (\<lambda>p. p_ronda p = r \<and> p_bond_id p = bond_id) (prices s) of
           None \<Rightarrow> (False, No_hay_precios, 0, 0)
         | Some p \<Rightarrow>
             (let px_exec = (if sd = BUY then p_precio_ask p else p_precio_bid p);
                  fees_bps = g_comision_bps g;
                  fees = (qty * px_exec) * (fees_bps / 10000)
              in case team_positions_and_cash s team_name of
                   (pos, cash) \<Rightarrow>
                     if sd = BUY
                     then (if cash < qty * px_exec + fees
                           then (False, Cash_insuficiente, px_exec, fees)
                           else (True, OK, px_exec, fees))
                     else (if dict_get pos bond_id 0 < qty
                           then (False, No_posee_cantidad, px_exec, fees)
                           else (True, OK, px_exec, fees))))"

text \<open>
  \<^verbatim>\<open>exec_order\<close> returns its pair and the document after the call. When the team
  is not registered, \<^verbatim>\<open>team["team_id"]\<close> on \<^verbatim>\<open>None\<close> raises before the append.
\<close>

definition exec_order ::
  "string \<Rightarrow> state \<Rightarrow> string \<Rightarrow> side \<Rightarrow> string \<Rightarrow> real \<Rightarrow> (py_error + bool \<times> message) \<times> state"
where
  "exec_order now s team_name sd bond_id qty =
     (case can_exec_order s team_name sd bond_id qty of
        (ok, msg, px_exec, fees) \<Rightarrow>
          if \<not> ok then (Inr (False, msg), s)
          else (case team_get s team_name of
                  None \<Rightarrow> (Inl TypeError, s)
                | Some team \<Rightarrow>
                    (Inr (True, Orden_ejecutada sd qty bond_id px_exec fees),
                     s\<lparr>orders := orders s @
                         [\<lparr>o_ts = now, o_team_id = t_team_id team, o_bond_id = bond_id,
                           o_side = sd, o_qty = qty, o_price_exec = px_exec, o_fees = fees,
                           o_ronda = g_ronda_actual (game s)\<rparr>]\<rparr>)))"

section \<open>Leaderboard\<close>

record row =
  r_Equipo :: string
  r_Cash :: real
  r_Valor_Posiciones :: real
  r_Valor_Portafolio :: real

definition team_row :: "state \<Rightarrow> (string \<times> real) list \<Rightarrow> team \<Rightarrow> row" where
  "team_row s prices_mid t =
     (case team_positions_and_cash s (t_team_name t) of
        (pos, cash) \<Rightarrow>
          (let valor_pos = fold (\<lambda>(b, q) v. v + q * dict_get prices_mid b 0) pos 0;
               valor = cash + valor_pos
           in \<lparr>r_Equipo = t_team_name t, r_Cash = cash, r_Valor_Posiciones = valor_pos,
               r_Valor_Portafolio = valor\<rparr>))"

text \<open>
  The data frame is the list of its rows; the rank is the position in the list. The
  ordering is done by pandas, \<^verbatim>\<open>df.sort_values("Valor_Portafolio", ascending=False)\<close> with
  the default \<^verbatim>\<open>kind="quicksort"\<close>: it is the parameter \<open>sort_values\<close>.
\<close>

definition compute_leaderboard ::
  "(row list \<Rightarrow> row list) \<Rightarrow> state \<Rightarrow> int option \<Rightarrow> row list" where
  "compute_leaderboard sort_values s ronda =
     (let ronda = (case ronda of None \<Rightarrow> g_ronda_actual (game s) | Some r \<Rightarrow> r);
          prices_mid = get_prices_dict s ronda;
          rows = map (team_row s prices_mid) (teams s)
      in if rows = [] then [] else sort_values rows)"

text \<open>
  What pandas documents of the call: the rows are rearranged, in descending order of the
  column. Its default algorithm is documented as not stable.
\<close>

definition sorts_descending :: "(row list \<Rightarrow> row list) \<Rightarrow> bool" where
  "sorts_descending sort_values =
     (\<forall>rows. mset (sort_values rows) = mset rows \<and>
             sorted_wrt (\<lambda>a b. r_Valor_Portafolio b \<le> r_Valor_Portafolio a) (sort_values rows))"

section \<open>Moderator panel\<close>



















section \<open>Example documents\<close>

text \<open>
  A game in round 1 with bond B1 priced at mid 1000 (bid 998, ask 1002), two registered
  teams, one manual ledger entry and two recorded orders of the first team.
\<close>

definition team_alfa :: team where
  "team_alfa = \<lparr>t_team_id = ''T1'', t_team_name = ''Alfa'', t_pin = [], t_activo = True,
                 t_created_at = ''t0'', t_cash_inicial = 1000000\<rparr>"

definition team_beta :: team where
  "team_beta = \<lparr>t_team_id = ''T2'', t_team_name = ''Beta'', t_pin = [], t_activo = True,
                 t_created_at = ''t0'', t_cash_inicial = 1000000\<rparr>"

definition price_B1_r1 :: price where
  "price_B1_r1 = \<lparr>p_ronda = 1, p_bond_id = ''B1'', p_y_efectiva = 1 / 200,
                   p_precio_mid = 1000, p_precio_bid = 998, p_precio_ask = 1002,
                   p_ts_publicacion = ''t1''\<rparr>"

definition order_buy10 :: order where
  "order_buy10 = \<lparr>o_ts = ''t2'', o_team_id = ''T1'', o_bond_id = ''B1'', o_side = BUY,
                   o_qty = 10, o_price_exec = 1002, o_fees = 1002 / 100, o_ronda = 1\<rparr>"

definition order_sell4 :: order where
  "order_sell4 = \<lparr>o_ts = ''t3'', o_team_id = ''T1'', o_bond_id = ''B1'', o_side = SELL,
                   o_qty = 4, o_price_exec = 998, o_fees = 3992 / 1000, o_ronda = 1\<rparr>"

definition demo_game :: game where
  "demo_game = \<lparr>g_game_code = ''MB-001'', g_rondas_totales = 3, g_ronda_actual = 1,
                 g_estado = TRADING_ON, g_fraccion_anio = 1 / 4, g_bid_bp = 20, g_ask_bp = 20,
                 g_comision_bps = 10, g_created_at = ''t0'', g_cash_inicial = 1000000\<rparr>"

definition demo_state :: state where
  "demo_state = \<lparr>game = demo_game, bonds = [bond_B1], events = [], prices = [price_B1_r1],
                  teams = [team_alfa, team_beta], orders = [order_buy10, order_sell4],
                  ledger = [\<lparr>l_team_id = ''T1'', l_cash_delta = 500\<rparr>]\<rparr>"

text \<open>
  A zero-coupon bond with one annual period left, and a document in round 1 whose events
  for the round cancel out (two market events and one event on the bond), with a stale
  price of the bond for round 1, a price for round 2 and one recorded order.
\<close>

definition bond_Z :: bond where
  "bond_Z = \<lparr>b_bond_id = ''Z'', b_nombre = ''Cero 1A'', b_valor_nominal = 100,
              b_tasa_cupon_anual = 0, b_frecuencia_anual = 1,
              b_vencimiento_anios = 1, b_spread_bps = 0\<rparr>"

definition price_Z_r1 :: price where
  "price_Z_r1 = \<lparr>p_ronda = 1, p_bond_id = ''Z'', p_y_efectiva = 1 / 100,
                  p_precio_mid = 99, p_precio_bid = 98, p_precio_ask = 100,
                  p_ts_publicacion = ''t1''\<rparr>"

definition price_Z_r2 :: price where
  "price_Z_r2 = \<lparr>p_ronda = 2, p_bond_id = ''Z'', p_y_efectiva = 1 / 50,
                  p_precio_mid = 98, p_precio_bid = 97, p_precio_ask = 99,
                  p_ts_publicacion = ''t1''\<rparr>"

definition publish_events :: "event list" where
  "publish_events =
     [\<lparr>e_round = 1, e_tipo = MARKET, e_bond_id = None, e_delta_tasa_bps = 75,
        e_impacto_bps = 0, e_descripcion = ''m1'', e_publicado = False\<rparr>,
      \<lparr>e_round = 1, e_tipo = MARKET, e_bond_id = None, e_delta_tasa_bps = - 100,
        e_impacto_bps = 0, e_descripcion = ''m2'', e_publicado = False\<rparr>,
      \<lparr>e_round = 1, e_tipo = IDIOS, e_bond_id = Some ''Z'', e_delta_tasa_bps = 0,
        e_impacto_bps = 25, e_descripcion = ''i1'', e_publicado = False\<rparr>,
      \<lparr>e_round = 2, e_tipo = MARKET, e_bond_id = None, e_delta_tasa_bps = - 40,
        e_impacto_bps = 0, e_descripcion = ''m3'', e_publicado = False\<rparr>]"

definition publish_state :: state where
  "publish_state = \<lparr>game = demo_game, bonds = [bond_Z], events = publish_events,
                     prices = [price_Z_r1, price_Z_r2], teams = [team_alfa, team_beta],
                     orders = [order_buy10], ledger = []\<rparr>"

definition published_Z :: price where
  "published_Z = \<lparr>p_ronda = 1, p_bond_id = ''Z'', p_y_efectiva = 0,
                   p_precio_mid = 100, p_precio_bid = 998 / 10, p_precio_ask = 1002 / 10,
                   p_ts_publicacion = ''t5''\<rparr>"

text \<open>
  A document in the lobby of round 1 whose only event is a market shock of \<open>-20050\<close> bps:
  with the 50 bps spread of bond B1 the effective yield is \<open>-2\<close>.
\<close>

definition crash_state :: state where
  "crash_state = \<lparr>game = demo_game\<lparr>g_estado := LOBBY\<rparr>, bonds = [bond_B1],
                   events = [\<lparr>e_round = 1, e_tipo = MARKET, e_bond_id = None,
                              e_delta_tasa_bps = - 20050, e_impacto_bps = 0,
                              e_descripcion = ''shock'', e_publicado = False\<rparr>],
                   prices = [], teams = [], orders = [], ledger = []\<rparr>"

section \<open>Properties of the pricing model\<close>

lemma pv_loop_sum:
  "1 + i \<noteq> 0 \<Longrightarrow> pv_loop C i ks pv = Inr (pv + (\<Sum>k\<leftarrow>ks. C / ((1 + i) ^ k)))"
  by (induction ks arbitrary: pv) (simp_all add: add.assoc)

lemma pv_loop_zero:
  "1 + i = 0 \<Longrightarrow> pv_loop C i (Suc k # ks) pv = Inl ZeroDivisionError"
  by simp

text \<open>
  Away from the yield \<open>y = - f\<close> the function returns the floored discounted cash flow, and
  the result is positive.
\<close>

lemma dcf_value:
  assumes "1 + i \<noteq> 0"
  shows "(case pv_loop C i [1..<Suc N] 0 of
            Inl err \<Rightarrow> Inl err
          | Inr pv \<Rightarrow>
              (if (1 + i) ^ N = 0 then Inl ZeroDivisionError
               else Inr (max (1 / 100) (pv + V / ((1 + i) ^ N)))))
         = Inr (max (1 / 100) ((\<Sum>k = 1..N. C / (1 + i) ^ k) + V / (1 + i) ^ N))"
proof -
  have "set [1..<Suc N] = {1..N}" by auto
  then have "(\<Sum>k\<leftarrow>[1..<Suc N]. C / (1 + i) ^ k) = (\<Sum>k = 1..N. C / (1 + i) ^ k)"
    by (simp add: interv_sum_list_conv_sum_set_nat del: upt_Suc)
  moreover have "(1 + i) ^ N \<noteq> 0" using assms by simp
  ultimately show ?thesis using assms by (simp add: pv_loop_sum del: upt_Suc)
qed

lemma price_bond_mid_formula:
  assumes f: "b_frecuencia_anual bond = f" "f \<noteq> 0"
    and nz: "1 + y / real_of_int f \<noteq> 0"
  shows "price_bond_mid bond y q e =
           Inr (max (1 / 100)
             ((\<Sum>k = 1..nat (max 1 \<lceil>max 0 (b_vencimiento_anios bond - real_of_int e * q)
                                      / (1 / real_of_int f)\<rceil>).
                 (b_valor_nominal bond * b_tasa_cupon_anual bond / real_of_int f)
                   / (1 + y / real_of_int f) ^ k)
              + b_valor_nominal bond
                  / (1 + y / real_of_int f)
                      ^ nat (max 1 \<lceil>max 0 (b_vencimiento_anios bond - real_of_int e * q)
                                      / (1 / real_of_int f)\<rceil>)))"
  unfolding price_bond_mid_def Let_def
  by (simp only: f if_False dcf_value [OF nz] times_divide_eq_right)

lemma price_bond_mid_positive:
  "price_bond_mid bond y q e = Inr mid \<Longrightarrow> 0 < mid"
  by (auto simp: price_bond_mid_def Let_def split: sum.splits if_splits)

text \<open>
  C7. The claim gives the floored discounted cash flow as the value of
  \<open>price_bond_mid\<close> for every effective annual yield. At the yield \<open>y = - f\<close> the period
  rate is \<open>i = -1\<close>, the discount factor \<open>(1 + i) ^ k\<close> is zero and the first coupon
  division raises \<^verbatim>\<open>ZeroDivisionError\<close>: for bond B1 (semiannual, \<open>f = 2\<close>) and yield
  \<open>-2\<close> no price is returned. The source comment above the loop announces that this
  division by zero is avoided, and no guard follows.
\<close>

theorem price_bond_mid_zero_division:
  "price_bond_mid bond_B1 (- 2) (1 / 4) 0 = Inl ZeroDivisionError"
  by (simp add: price_bond_mid_def bond_B1_def Let_def upt_conv_Cons del: upt_Suc)

section \<open>Reconstruction of positions and cash\<close>

lemma fold_ledger_step:
  "fold (ledger_step tid) ls c =
     c + sum_list (map l_cash_delta (filter (\<lambda>l. l_team_id l = tid) ls))"
  by (induction ls arbitrary: c) (simp_all add: ledger_step_def)

lemma fold_order_step_cash:
  "snd (fold (order_step tid) os (pos, c)) =
     c + sum_list (map (\<lambda>ord. if o_side ord = BUY
                              then - (o_qty ord * o_price_exec ord + o_fees ord)
                              else o_qty ord * o_price_exec ord - o_fees ord)
                       (filter (\<lambda>ord. o_team_id ord = tid) os))"
  by (induction os arbitrary: pos c) (simp_all add: Let_def)

lemma dict_get_update:
  "dict_get (AList.update k v d) k' dflt = (if k' = k then v else dict_get d k' dflt)"
  by (simp add: dict_get_def update_conv')

lemma fold_order_step_qty:
  "dict_get (fst (fold (order_step tid) os (pos, c))) b 0 =
     dict_get pos b 0
     + sum_list (map o_qty (filter (\<lambda>ord. o_team_id ord = tid \<and> o_bond_id ord = b \<and> o_side ord = BUY) os))
     - sum_list (map o_qty (filter (\<lambda>ord. o_team_id ord = tid \<and> o_bond_id ord = b \<and> o_side ord \<noteq> BUY) os))"
  by (induction os arbitrary: pos c) (simp_all add: Let_def dict_get_update)

lemma fold_order_step_keys:
  "fst ` set (fst (fold (order_step tid) os (pos, c))) =
     fst ` set pos \<union> o_bond_id ` set (filter (\<lambda>ord. o_team_id ord = tid) os)"
  by (induction os arbitrary: pos c) (auto simp add: Let_def dom_update)

lemma fold_order_step_distinct:
  "distinct (map fst pos) \<Longrightarrow> distinct (map fst (fst (fold (order_step tid) os (pos, c))))"
  by (induction os arbitrary: pos c) (simp_all add: Let_def distinct_update)

lemma dict_get_map_of:
  "map_of d k = (if k \<in> fst ` set d then Some (dict_get d k dflt) else None)"
  by (auto simp: dict_get_def map_of_eq_None_iff split: option.splits)


text \<open>
  C1. For a registered team (one that \<open>team_get\<close> finds), \<open>team_positions_and_cash\<close>
  returns as cash the team's initial cash, plus the cash deltas of the ledger entries
  with the team's id, plus the cash effect of each of the team's orders (minus
  \<open>qty * price + fees\<close> for a BUY, plus \<open>qty * price - fees\<close> for a SELL); the positions
  map every bond the team has traded to the sum of its BUY quantities minus the sum of
  its SELL quantities, and no other bond; the keys are distinct. The result depends on
  the teams, the ledger and the orders only: two documents that agree on them give the
  same reconstruction, whatever their other fields hold.
\<close>

theorem team_positions_and_cash_reconstruction:
  assumes "team_get s team_name = Some t"
  shows "snd (team_positions_and_cash s team_name) =
           t_cash_inicial t
           + sum_list (map l_cash_delta (filter (\<lambda>l. l_team_id l = t_team_id t) (ledger s)))
           + sum_list (map (\<lambda>ord. if o_side ord = BUY
                                    then - (o_qty ord * o_price_exec ord + o_fees ord)
                                    else o_qty ord * o_price_exec ord - o_fees ord)
                           (filter (\<lambda>ord. o_team_id ord = t_team_id t) (orders s)))
       \<and> (\<forall>b. map_of (fst (team_positions_and_cash s team_name)) b =
           (if b \<in> o_bond_id ` set (filter (\<lambda>ord. o_team_id ord = t_team_id t) (orders s))
            then Some (sum_list (map o_qty (filter (\<lambda>ord. o_team_id ord = t_team_id t \<and>
                                      o_bond_id ord = b \<and> o_side ord = BUY) (orders s)))
                       - sum_list (map o_qty (filter (\<lambda>ord. o_team_id ord = t_team_id t \<and>
                                      o_bond_id ord = b \<and> o_side ord = SELL) (orders s))))
            else None))
       \<and> distinct (map fst (fst (team_positions_and_cash s team_name)))
       \<and> (\<forall>s'. teams s' = teams s \<and> ledger s' = ledger s \<and> orders s' = orders s \<longrightarrow>
           team_positions_and_cash s' team_name = team_positions_and_cash s team_name)"
proof -
  let ?tid = "t_team_id t"
  let ?c = "fold (ledger_step ?tid) (ledger s) (t_cash_inicial t)"
  have tpc: "team_positions_and_cash s team_name = fold (order_step ?tid) (orders s) ([], ?c)"
    using assms by (simp add: team_positions_and_cash_def)
  have cash: "snd (team_positions_and_cash s team_name) =
           t_cash_inicial t
           + sum_list (map l_cash_delta (filter (\<lambda>l. l_team_id l = t_team_id t) (ledger s)))
           + sum_list (map (\<lambda>ord. if o_side ord = BUY
                                    then - (o_qty ord * o_price_exec ord + o_fees ord)
                                    else o_qty ord * o_price_exec ord - o_fees ord)
                           (filter (\<lambda>ord. o_team_id ord = t_team_id t) (orders s)))"
    by (simp only: tpc fold_order_step_cash fold_ledger_step)
  have sell: "(\<lambda>ord. o_team_id ord = ?tid \<and> o_bond_id ord = b \<and> o_side ord \<noteq> BUY) =
              (\<lambda>ord. o_team_id ord = ?tid \<and> o_bond_id ord = b \<and> o_side ord = SELL)" for b
    by (rule ext) (metis side.exhaust side.distinct(1))
  have pos: "map_of (fst (team_positions_and_cash s team_name)) b =
           (if b \<in> o_bond_id ` set (filter (\<lambda>ord. o_team_id ord = t_team_id t) (orders s))
            then Some (sum_list (map o_qty (filter (\<lambda>ord. o_team_id ord = t_team_id t \<and>
                                      o_bond_id ord = b \<and> o_side ord = BUY) (orders s)))
                       - sum_list (map o_qty (filter (\<lambda>ord. o_team_id ord = t_team_id t \<and>
                                      o_bond_id ord = b \<and> o_side ord = SELL) (orders s))))
            else None)" for b
    unfolding tpc
    by (subst dict_get_map_of [where dflt = 0])
       (simp only: fold_order_step_keys fold_order_step_qty sell,
        simp add: dict_get_def)
  have dist: "distinct (map fst (fst (team_positions_and_cash s team_name)))"
    unfolding tpc by (rule fold_order_step_distinct) simp
  have pure: "team_positions_and_cash s' team_name = team_positions_and_cash s team_name"
    if "teams s' = teams s \<and> ledger s' = ledger s \<and> orders s' = orders s" for s'
    using that by (auto simp add: team_positions_and_cash_def team_get_def split: option.splits)
  from cash pos dist pure show ?thesis by blast
qed



lemma team_get_demo_alfa: "team_get demo_state ''Alfa'' = Some team_alfa"
  by (simp add: team_get_def demo_state_def team_alfa_def team_beta_def)

theorem team_positions_and_cash_reconstruction_witness:
  "team_get demo_state ''Alfa'' = Some team_alfa \<and>
   snd (team_positions_and_cash demo_state ''Alfa'') =
     1000000 + 500 - (10 * 1002 + 1002 / 100) + (4 * 998 - 3992 / 1000) \<and>
   map_of (fst (team_positions_and_cash demo_state ''Alfa'')) ''B1'' = Some (10 - 4) \<and>
   map_of (fst (team_positions_and_cash demo_state ''Alfa'')) ''B2'' = None"
proof -
  note r = team_positions_and_cash_reconstruction [OF team_get_demo_alfa]
  note r1 = r [THEN conjunct1]
  note r2 = r [THEN conjunct2, THEN conjunct1, rule_format]
  have c: "snd (team_positions_and_cash demo_state ''Alfa'') =
     1000000 + 500 - (10 * 1002 + 1002 / 100) + (4 * 998 - 3992 / 1000)"
    unfolding r1 by (simp add: demo_state_def team_alfa_def order_buy10_def order_sell4_def)
  have p1: "map_of (fst (team_positions_and_cash demo_state ''Alfa'')) ''B1'' = Some (10 - 4)"
    unfolding r2 [of "''B1''"]
    by (simp add: demo_state_def team_alfa_def order_buy10_def order_sell4_def)
  have p2: "map_of (fst (team_positions_and_cash demo_state ''Alfa'')) ''B2'' = None"
    unfolding r2 [of "''B2''"]
    by (simp add: demo_state_def team_alfa_def order_buy10_def order_sell4_def)
  from c p1 p2 team_get_demo_alfa show ?thesis by (simp only: simp_thms)
qed

section \<open>Properties of the order engine\<close>

text \<open>
  C2. When a price is published for the current round and the bond (the first such price
  is taken), a BUY is priced at the ask and rejected with \<open>Cash_insuficiente\<close> exactly
  when the reconstructed cash is below \<open>qty * ask + fees\<close>, with
  \<open>fees = qty * ask * comision_bps / 10000\<close>; a SELL is priced at the bid and rejected
  with \<open>No_posee_cantidad\<close> exactly when the reconstructed holding of the bond is below
  \<open>qty\<close>; otherwise the order is accepted. Without a published price the order is
  rejected with \<open>No_hay_precios\<close>.
\<close>

theorem can_exec_order_decision:
  "(find (\<lambda>p. p_ronda p = g_ronda_actual (game s) \<and> p_bond_id p = bond_id) (prices s) = None \<longrightarrow>
      can_exec_order s team_name sd bond_id qty = (False, No_hay_precios, 0, 0)) \<and>
   (\<forall>p. find (\<lambda>p. p_ronda p = g_ronda_actual (game s) \<and> p_bond_id p = bond_id) (prices s) = Some p \<longrightarrow>
      can_exec_order s team_name BUY bond_id qty =
        (let ask = p_precio_ask p;
             fees = qty * ask * g_comision_bps (game s) / 10000;
             cash = snd (team_positions_and_cash s team_name)
         in if cash < qty * ask + fees then (False, Cash_insuficiente, ask, fees)
            else (True, OK, ask, fees)) \<and>
      can_exec_order s team_name SELL bond_id qty =
        (let bid = p_precio_bid p;
             fees = qty * bid * g_comision_bps (game s) / 10000;
             held = dict_get (fst (team_positions_and_cash s team_name)) bond_id 0
         in if held < qty then (False, No_posee_cantidad, bid, fees)
            else (True, OK, bid, fees)))"
  by (simp add: can_exec_order_def Let_def split: prod.splits)

lemma find_demo_B1:
  "find (\<lambda>p. p_ronda p = g_ronda_actual (game demo_state) \<and> p_bond_id p = ''B1'') (prices demo_state)
     = Some price_B1_r1"
  by (simp add: demo_state_def demo_game_def price_B1_r1_def)

lemma team_get_demo_beta: "team_get demo_state ''Beta'' = Some team_beta"
  by (simp add: team_get_def demo_state_def team_alfa_def team_beta_def)

lemma tpc_demo_beta: "team_positions_and_cash demo_state ''Beta'' = ([], 1000000)"
  by (simp add: team_positions_and_cash_def team_get_demo_beta)
     (simp add: demo_state_def team_beta_def order_buy10_def order_sell4_def ledger_step_def)

theorem can_exec_order_decision_witness:
  "find (\<lambda>p. p_ronda p = g_ronda_actual (game demo_state) \<and> p_bond_id p = ''B1'') (prices demo_state)
     = Some price_B1_r1 \<and>
   can_exec_order demo_state ''Beta'' BUY ''B1'' 1000 = (False, Cash_insuficiente, 1002, 1002) \<and>
   can_exec_order demo_state ''Beta'' BUY ''B1'' 10 = (True, OK, 1002, 1002 / 100) \<and>
   can_exec_order demo_state ''Beta'' SELL ''B1'' 1 = (False, No_posee_cantidad, 998, 998 / 1000) \<and>
   find (\<lambda>p. p_ronda p = g_ronda_actual (game demo_state) \<and> p_bond_id p = ''B2'') (prices demo_state)
     = None \<and>
   can_exec_order demo_state ''Beta'' BUY ''B2'' 1 = (False, No_hay_precios, 0, 0)"
proof -
  have nf: "find (\<lambda>p. p_ronda p = g_ronda_actual (game demo_state) \<and> p_bond_id p = ''B2'')
              (prices demo_state) = None"
    by (simp add: demo_state_def demo_game_def price_B1_r1_def)
  have com: "g_comision_bps (game demo_state) = 10"
    by (simp add: demo_state_def demo_game_def)
  have b1: "can_exec_order demo_state ''Beta'' BUY ''B1'' 1000 = (False, Cash_insuficiente, 1002, 1002)"
    using can_exec_order_decision [where s = demo_state and bond_id = "''B1''"
        and team_name = "''Beta''" and qty = 1000, THEN conjunct2, rule_format,
        OF find_demo_B1, THEN conjunct1]
    by (simp add: tpc_demo_beta com price_B1_r1_def Let_def)
  have b2: "can_exec_order demo_state ''Beta'' BUY ''B1'' 10 = (True, OK, 1002, 1002 / 100)"
    using can_exec_order_decision [where s = demo_state and bond_id = "''B1''"
        and team_name = "''Beta''" and qty = 10, THEN conjunct2, rule_format,
        OF find_demo_B1, THEN conjunct1]
    by (simp add: tpc_demo_beta com price_B1_r1_def Let_def)
  have s1: "can_exec_order demo_state ''Beta'' SELL ''B1'' 1 = (False, No_posee_cantidad, 998, 998 / 1000)"
    using can_exec_order_decision [where s = demo_state and bond_id = "''B1''"
        and team_name = "''Beta''" and qty = 1, THEN conjunct2, rule_format,
        OF find_demo_B1, THEN conjunct2]
    by (simp add: tpc_demo_beta com price_B1_r1_def Let_def dict_get_def)
  have n1: "can_exec_order demo_state ''Beta'' BUY ''B2'' 1 = (False, No_hay_precios, 0, 0)"
    using can_exec_order_decision [where s = demo_state and bond_id = "''B2''"
        and team_name = "''Beta''" and sd = BUY and qty = 1, THEN conjunct1] nf
    by simp
  from find_demo_B1 b1 b2 s1 nf n1 show ?thesis by (simp only: simp_thms)
qed


lemma can_exec_order_reason:
  "\<not> fst (can_exec_order s team_name sd bond_id qty) \<Longrightarrow>
     fst (snd (can_exec_order s team_name sd bond_id qty))
       \<in> {No_hay_precios, Cash_insuficiente, No_posee_cantidad}"
  by (auto simp: can_exec_order_def Let_def split: option.splits prod.splits if_splits)

text \<open>
  C3. Whenever \<open>can_exec_order\<close> refuses, \<open>exec_order\<close> returns the rejection with its
  reason and the document it was given. Every rejection carries one of the three
  reasons and leaves the document, and so the reconstruction of every team, unchanged;
  so does the exception raised for an unregistered team. An accepted order appends
  one order record, with the price and fees computed at that instant, and changes
  nothing else.
\<close>

theorem exec_order_frame:
  "(\<not> fst (can_exec_order s team_name sd bond_id qty) \<longrightarrow>
      exec_order now s team_name sd bond_id qty =
        (Inr (False, fst (snd (can_exec_order s team_name sd bond_id qty))), s)) \<and>
   (\<forall>msg. fst (exec_order now s team_name sd bond_id qty) = Inr (False, msg) \<longrightarrow>
      msg \<in> {No_hay_precios, Cash_insuficiente, No_posee_cantidad} \<and>
      snd (exec_order now s team_name sd bond_id qty) = s \<and>
      (\<forall>name. team_positions_and_cash (snd (exec_order now s team_name sd bond_id qty)) name
               = team_positions_and_cash s name)) \<and>
   (\<forall>err. fst (exec_order now s team_name sd bond_id qty) = Inl err \<longrightarrow>
      snd (exec_order now s team_name sd bond_id qty) = s) \<and>
   (\<forall>msg. fst (exec_order now s team_name sd bond_id qty) = Inr (True, msg) \<longrightarrow>
      (\<exists>t. team_get s team_name = Some t \<and>
           snd (exec_order now s team_name sd bond_id qty) =
             s\<lparr>orders := orders s @
                 [\<lparr>o_ts = now, o_team_id = t_team_id t, o_bond_id = bond_id, o_side = sd,
                   o_qty = qty,
                   o_price_exec = fst (snd (snd (can_exec_order s team_name sd bond_id qty))),
                   o_fees = snd (snd (snd (can_exec_order s team_name sd bond_id qty))),
                   o_ronda = g_ronda_actual (game s)\<rparr>]\<rparr>))"
proof -
  obtain ok m px fees where c: "can_exec_order s team_name sd bond_id qty = (ok, m, px, fees)"
    by (cases "can_exec_order s team_name sd bond_id qty") auto
  have reason: "\<not> ok \<Longrightarrow> m \<in> {No_hay_precios, Cash_insuficiente, No_posee_cantidad}"
    using can_exec_order_reason [of s team_name sd bond_id qty] by (simp add: c)
  show ?thesis
  proof (cases ok)
    case False
    then have "exec_order now s team_name sd bond_id qty = (Inr (False, m), s)"
      by (simp add: exec_order_def c)
    with False reason show ?thesis by (simp add: c)
  next
    case True
    show ?thesis
    proof (cases "team_get s team_name")
      case None
      with True have "exec_order now s team_name sd bond_id qty = (Inl TypeError, s)"
        by (simp add: exec_order_def c)
      with True show ?thesis by (simp add: c)
    next
      case (Some t)
      with True show ?thesis by (simp add: exec_order_def c)
    qed
  qed
qed

lemma can_exec_demo_buy1000:
  "can_exec_order demo_state ''Beta'' BUY ''B1'' 1000 = (False, Cash_insuficiente, 1002, 1002)"
  by (simp add: can_exec_order_def find_demo_B1 tpc_demo_beta Let_def price_B1_r1_def)
     (simp add: demo_state_def demo_game_def)

lemma can_exec_demo_buy10:
  "can_exec_order demo_state ''Beta'' BUY ''B1'' 10 = (True, OK, 1002, 1002 / 100)"
  by (simp add: can_exec_order_def find_demo_B1 tpc_demo_beta Let_def price_B1_r1_def)
     (simp add: demo_state_def demo_game_def)

lemma exec_demo_buy10_fst:
  "fst (exec_order ''t9'' demo_state ''Beta'' BUY ''B1'' 10)
     = Inr (True, Orden_ejecutada BUY 10 ''B1'' 1002 (1002 / 100))"
  by (simp add: exec_order_def can_exec_demo_buy10 team_get_demo_beta)

theorem exec_order_frame_witness:
  "\<not> fst (can_exec_order demo_state ''Beta'' BUY ''B1'' 1000) \<and>
   exec_order ''t9'' demo_state ''Beta'' BUY ''B1'' 1000 = (Inr (False, Cash_insuficiente), demo_state) \<and>
   fst (exec_order ''t9'' demo_state ''Beta'' BUY ''B1'' 10)
     = Inr (True, Orden_ejecutada BUY 10 ''B1'' 1002 (1002 / 100)) \<and>
   snd (exec_order ''t9'' demo_state ''Beta'' BUY ''B1'' 10) =
     demo_state\<lparr>orders := orders demo_state @
       [\<lparr>o_ts = ''t9'', o_team_id = ''T2'', o_bond_id = ''B1'', o_side = BUY, o_qty = 10,
         o_price_exec = 1002, o_fees = 1002 / 100, o_ronda = 1\<rparr>]\<rparr>"
proof -
  have rej: "\<not> fst (can_exec_order demo_state ''Beta'' BUY ''B1'' 1000)"
    by (simp add: can_exec_demo_buy1000)
  have r1: "exec_order ''t9'' demo_state ''Beta'' BUY ''B1'' 1000
              = (Inr (False, Cash_insuficiente), demo_state)"
    using exec_order_frame [where s = demo_state and team_name = "''Beta''" and sd = BUY
        and bond_id = "''B1''" and qty = 1000 and now = "''t9''", THEN conjunct1, rule_format,
        OF rej]
    by (simp add: can_exec_demo_buy1000)
  have r2: "snd (exec_order ''t9'' demo_state ''Beta'' BUY ''B1'' 10) =
     demo_state\<lparr>orders := orders demo_state @
       [\<lparr>o_ts = ''t9'', o_team_id = ''T2'', o_bond_id = ''B1'', o_side = BUY, o_qty = 10,
         o_price_exec = 1002, o_fees = 1002 / 100, o_ronda = 1\<rparr>]\<rparr>"
    using exec_order_frame [where s = demo_state and team_name = "''Beta''" and sd = BUY
        and bond_id = "''B1''" and qty = 10 and now = "''t9''", THEN conjunct2, THEN conjunct2,
        THEN conjunct2, rule_format, OF exec_demo_buy10_fst]
    by (simp add: team_get_demo_beta can_exec_demo_buy10 team_beta_def)
       (simp add: demo_state_def demo_game_def)
  from rej r1 exec_demo_buy10_fst r2 show ?thesis by (simp only: simp_thms)
qed


lemma can_exec_demo_buy0:
  "can_exec_order demo_state ''Beta'' BUY ''B1'' 0 = (True, OK, 1002, 0)"
  by (simp add: can_exec_order_def find_demo_B1 tpc_demo_beta Let_def price_B1_r1_def)

lemma can_exec_demo_buy_neg:
  "can_exec_order demo_state ''Beta'' BUY ''B1'' (- 5) = (True, OK, 1002, - (501 / 100))"
  by (simp add: can_exec_order_def find_demo_B1 tpc_demo_beta Let_def price_B1_r1_def)
     (simp add: demo_state_def demo_game_def)

text \<open>
  C4. The claim has the engine reject a quantity that is not positive. The engine never
  looks at the sign of the quantity: for team Beta, which holds its initial cash, a BUY of
  quantity 0 and a BUY of quantity \<open>-5\<close> of bond B1 are both accepted and recorded.
\<close>

theorem exec_order_accepts_nonpositive_quantity:
  "exec_order ''t9'' demo_state ''Beta'' BUY ''B1'' 0 =
     (Inr (True, Orden_ejecutada BUY 0 ''B1'' 1002 0),
      demo_state\<lparr>orders := orders demo_state @
        [\<lparr>o_ts = ''t9'', o_team_id = ''T2'', o_bond_id = ''B1'', o_side = BUY, o_qty = 0,
          o_price_exec = 1002, o_fees = 0, o_ronda = 1\<rparr>]\<rparr>) \<and>
   exec_order ''t9'' demo_state ''Beta'' BUY ''B1'' (- 5) =
     (Inr (True, Orden_ejecutada BUY (- 5) ''B1'' 1002 (- (501 / 100))),
      demo_state\<lparr>orders := orders demo_state @
        [\<lparr>o_ts = ''t9'', o_team_id = ''T2'', o_bond_id = ''B1'', o_side = BUY, o_qty = - 5,
          o_price_exec = 1002, o_fees = - (501 / 100), o_ronda = 1\<rparr>]\<rparr>)"
  by (simp add: exec_order_def can_exec_demo_buy0 can_exec_demo_buy_neg team_get_demo_beta
        team_beta_def)
     (simp add: demo_state_def demo_game_def)

text \<open>
  C4, as the code has it. For a registered team and a published price, a quantity
  \<open>qty \<le> 0\<close> passes the same two comparisons as any other: the BUY is accepted and
  recorded whenever the ask, the commission and the reconstructed cash are not
  negative, the SELL whenever the reconstructed holding is not negative. Positive
  quantities are enforced by the participant form only (\<^verbatim>\<open>min_value=1\<close>).
\<close>

theorem exec_order_no_quantity_check:
  assumes p: "find (\<lambda>p. p_ronda p = g_ronda_actual (game s) \<and> p_bond_id p = bond_id) (prices s)
                = Some p"
    and t: "team_get s team_name = Some t"
    and q: "qty \<le> 0"
  shows "(0 \<le> p_precio_ask p \<and> 0 \<le> g_comision_bps (game s) \<and>
          0 \<le> snd (team_positions_and_cash s team_name) \<longrightarrow>
            exec_order now s team_name BUY bond_id qty =
              (Inr (True, Orden_ejecutada BUY qty bond_id (p_precio_ask p)
                            (qty * p_precio_ask p * (g_comision_bps (game s) / 10000))),
               s\<lparr>orders := orders s @
                   [\<lparr>o_ts = now, o_team_id = t_team_id t, o_bond_id = bond_id, o_side = BUY,
                     o_qty = qty, o_price_exec = p_precio_ask p,
                     o_fees = qty * p_precio_ask p * (g_comision_bps (game s) / 10000),
                     o_ronda = g_ronda_actual (game s)\<rparr>]\<rparr>)) \<and>
         (0 \<le> dict_get (fst (team_positions_and_cash s team_name)) bond_id 0 \<longrightarrow>
            exec_order now s team_name SELL bond_id qty =
              (Inr (True, Orden_ejecutada SELL qty bond_id (p_precio_bid p)
                            (qty * p_precio_bid p * (g_comision_bps (game s) / 10000))),
               s\<lparr>orders := orders s @
                   [\<lparr>o_ts = now, o_team_id = t_team_id t, o_bond_id = bond_id, o_side = SELL,
                     o_qty = qty, o_price_exec = p_precio_bid p,
                     o_fees = qty * p_precio_bid p * (g_comision_bps (game s) / 10000),
                     o_ronda = g_ronda_actual (game s)\<rparr>]\<rparr>))"
proof (intro conjI impI)
  obtain pos cash where pc: "team_positions_and_cash s team_name = (pos, cash)"
    by (cases "team_positions_and_cash s team_name") auto
  {
    assume a: "0 \<le> p_precio_ask p \<and> 0 \<le> g_comision_bps (game s) \<and>
               0 \<le> snd (team_positions_and_cash s team_name)"
    let ?cost = "qty * p_precio_ask p"
    let ?fees = "?cost * (g_comision_bps (game s) / 10000)"
    have c0: "?cost \<le> 0" using q a by (simp add: mult_nonpos_nonneg)
    have "?fees \<le> 0" using c0 a by (simp add: mult_nonpos_nonneg)
    with c0 a have "\<not> cash < ?cost + ?fees" by (simp add: pc)
    then have "can_exec_order s team_name BUY bond_id qty = (True, OK, p_precio_ask p, ?fees)"
      by (simp add: can_exec_order_def p pc Let_def)
    then show "exec_order now s team_name BUY bond_id qty =
              (Inr (True, Orden_ejecutada BUY qty bond_id (p_precio_ask p)
                            (qty * p_precio_ask p * (g_comision_bps (game s) / 10000))),
               s\<lparr>orders := orders s @
                   [\<lparr>o_ts = now, o_team_id = t_team_id t, o_bond_id = bond_id, o_side = BUY,
                     o_qty = qty, o_price_exec = p_precio_ask p,
                     o_fees = qty * p_precio_ask p * (g_comision_bps (game s) / 10000),
                     o_ronda = g_ronda_actual (game s)\<rparr>]\<rparr>)"
      by (simp add: exec_order_def t)
  }
  {
    assume a: "0 \<le> dict_get (fst (team_positions_and_cash s team_name)) bond_id 0"
    with q have "\<not> dict_get pos bond_id 0 < qty" by (simp add: pc)
    then have "can_exec_order s team_name SELL bond_id qty =
        (True, OK, p_precio_bid p, qty * p_precio_bid p * (g_comision_bps (game s) / 10000))"
      by (simp add: can_exec_order_def p pc Let_def)
    then show "exec_order now s team_name SELL bond_id qty =
              (Inr (True, Orden_ejecutada SELL qty bond_id (p_precio_bid p)
                            (qty * p_precio_bid p * (g_comision_bps (game s) / 10000))),
               s\<lparr>orders := orders s @
                   [\<lparr>o_ts = now, o_team_id = t_team_id t, o_bond_id = bond_id, o_side = SELL,
                     o_qty = qty, o_price_exec = p_precio_bid p,
                     o_fees = qty * p_precio_bid p * (g_comision_bps (game s) / 10000),
                     o_ronda = g_ronda_actual (game s)\<rparr>]\<rparr>)"
      by (simp add: exec_order_def t)
  }
qed

theorem exec_order_no_quantity_check_witness:
  "find (\<lambda>p. p_ronda p = g_ronda_actual (game demo_state) \<and> p_bond_id p = ''B1'') (prices demo_state)
     = Some price_B1_r1 \<and>
   team_get demo_state ''Beta'' = Some team_beta \<and> (- 5 :: real) \<le> 0 \<and>
   0 \<le> p_precio_ask price_B1_r1 \<and> 0 \<le> g_comision_bps (game demo_state) \<and>
   0 \<le> snd (team_positions_and_cash demo_state ''Beta'') \<and>
   0 \<le> dict_get (fst (team_positions_and_cash demo_state ''Beta'')) ''B1'' 0 \<and>
   fst (exec_order ''t9'' demo_state ''Beta'' BUY ''B1'' (- 5))
     = Inr (True, Orden_ejecutada BUY (- 5) ''B1'' 1002 (- (501 / 100))) \<and>
   fst (exec_order ''t9'' demo_state ''Beta'' SELL ''B1'' (- 5))
     = Inr (True, Orden_ejecutada SELL (- 5) ''B1'' 998 (- (499 / 100)))"
proof -
  have com: "g_comision_bps (game demo_state) = 10"
    by (simp add: demo_state_def demo_game_def)
  have h1: "0 \<le> p_precio_ask price_B1_r1 \<and> 0 \<le> g_comision_bps (game demo_state) \<and>
            0 \<le> snd (team_positions_and_cash demo_state ''Beta'')"
    by (simp add: price_B1_r1_def com tpc_demo_beta)
  have h2: "0 \<le> dict_get (fst (team_positions_and_cash demo_state ''Beta'')) ''B1'' 0"
    by (simp add: tpc_demo_beta dict_get_def)
  have q: "(- 5 :: real) \<le> 0" by simp
  note w = exec_order_no_quantity_check [OF find_demo_B1 team_get_demo_beta q,
      where now = "''t9''"]
  have b: "fst (exec_order ''t9'' demo_state ''Beta'' BUY ''B1'' (- 5))
     = Inr (True, Orden_ejecutada BUY (- 5) ''B1'' 1002 (- (501 / 100)))"
    using w [THEN conjunct1, rule_format, OF h1] by (simp add: com price_B1_r1_def)
  have s: "fst (exec_order ''t9'' demo_state ''Beta'' SELL ''B1'' (- 5))
     = Inr (True, Orden_ejecutada SELL (- 5) ''B1'' 998 (- (499 / 100)))"
    using w [THEN conjunct2, rule_format, OF h2] by (simp add: com price_B1_r1_def)
  from find_demo_B1 team_get_demo_beta q h1 h2 b s show ?thesis by (simp only: simp_thms)
qed

section \<open>Properties of price publication\<close>

lemma new_prices_loop_Inr:
  "new_prices_loop now g evs m bs acc = Inr new \<Longrightarrow>
   \<exists>added. new = acc @ added \<and>
     list_all2 (\<lambda>b p. p_ronda p = g_ronda_actual g \<and> p_bond_id p = b_bond_id b \<and>
        p_y_efectiva p = effective_ytm (b_spread_bps b) m (round_idios evs (g_ronda_actual g) b) \<and>
        price_bond_mid b (p_y_efectiva p) (g_fraccion_anio g) (g_ronda_actual g - 1)
          = Inr (p_precio_mid p)) bs added"
proof (induction bs arbitrary: acc)
  case Nil
  then show ?case by simp
next
  case (Cons b bs)
  let ?y = "effective_ytm (b_spread_bps b) m (round_idios evs (g_ronda_actual g) b)"
  from Cons.prems obtain mid where
    mid: "price_bond_mid b ?y (g_fraccion_anio g) (g_ronda_actual g - 1) = Inr mid"
    by (auto simp: Let_def split: sum.splits)
  obtain bid ask where ba: "bid_ask_from_mid mid (g_bid_bp g) (g_ask_bp g) = (bid, ask)"
    by (cases "bid_ask_from_mid mid (g_bid_bp g) (g_ask_bp g)") auto
  let ?p = "\<lparr>p_ronda = g_ronda_actual g, p_bond_id = b_bond_id b, p_y_efectiva = ?y,
             p_precio_mid = mid, p_precio_bid = bid, p_precio_ask = ask,
             p_ts_publicacion = now\<rparr>"
  from Cons.prems mid ba
  have "new_prices_loop now g evs m bs (acc @ [?p]) = Inr new"
    by (simp add: Let_def)
  from Cons.IH [OF this] obtain added where
    a: "new = (acc @ [?p]) @ added" and
    l: "list_all2 (\<lambda>b p. p_ronda p = g_ronda_actual g \<and> p_bond_id p = b_bond_id b \<and>
        p_y_efectiva p = effective_ytm (b_spread_bps b) m (round_idios evs (g_ronda_actual g) b) \<and>
        price_bond_mid b (p_y_efectiva p) (g_fraccion_anio g) (g_ronda_actual g - 1)
          = Inr (p_precio_mid p)) bs added"
    by blast
  show ?case
  proof (intro exI conjI)
    show "new = acc @ (?p # added)" using a by simp
    show "list_all2 (\<lambda>b p. p_ronda p = g_ronda_actual g \<and> p_bond_id p = b_bond_id b \<and>
        p_y_efectiva p = effective_ytm (b_spread_bps b) m (round_idios evs (g_ronda_actual g) b) \<and>
        price_bond_mid b (p_y_efectiva p) (g_fraccion_anio g) (g_ronda_actual g - 1)
          = Inr (p_precio_mid p)) (b # bs) (?p # added)"
      using l mid by simp
  qed
qed

lemma publish_prices_Inr:
  assumes "publish_prices_for_round now s = Inr s'"
  shows "\<exists>new. new_prices_loop now (game s) (events s)
                 (round_ev_mkt (events s) (g_ronda_actual (game s))) (bonds s) [] = Inr new \<and>
           s' = s\<lparr>events := map (\<lambda>e. if e_round e = g_ronda_actual (game s)
                                       then e\<lparr>e_publicado := True\<rparr> else e) (events s),
                  prices := filter (\<lambda>p. p_ronda p \<noteq> g_ronda_actual (game s)) (prices s) @ new,
                  game := (game s)\<lparr>g_estado := TRADING_ON\<rparr>\<rparr>"
  using assms by (auto simp: publish_prices_for_round_def Let_def split: sum.splits)

lemma filter_round_new:
  assumes "list_all2 (\<lambda>b p. p_ronda p = r \<and> Q b p) bs new"
  shows "filter (\<lambda>p. p_ronda p = r) new = new" and "filter (\<lambda>p. p_ronda p \<noteq> r) new = []"
proof -
  have "\<forall>p \<in> set new. p_ronda p = r"
    using assms by (auto simp: list_all2_conv_all_nth in_set_conv_nth)
  then show "filter (\<lambda>p. p_ronda p = r) new = new" and "filter (\<lambda>p. p_ronda p \<noteq> r) new = []"
    by (simp_all add: filter_empty_conv)
qed


text \<open>
  C5. When \<open>publish_prices_for_round\<close> returns, the prices of the current round \<open>r\<close> in
  the new document are exactly the prices computed by this call, the prices of every
  other round are the ones stored before, in their order, and the price list is the old
  prices of the other rounds followed by the new ones. Orders, ledger, teams and bonds
  are untouched, so every recorded fill keeps its price and fees and the reconstruction
  of every team is the same.
\<close>

theorem publish_prices_for_round_frame:
  assumes "publish_prices_for_round now s = Inr s'"
  shows "new_prices_loop now (game s) (events s)
             (round_ev_mkt (events s) (g_ronda_actual (game s))) (bonds s) []
           = Inr (filter (\<lambda>p. p_ronda p = g_ronda_actual (game s)) (prices s')) \<and>
         filter (\<lambda>p. p_ronda p \<noteq> g_ronda_actual (game s)) (prices s')
           = filter (\<lambda>p. p_ronda p \<noteq> g_ronda_actual (game s)) (prices s) \<and>
         prices s' = filter (\<lambda>p. p_ronda p \<noteq> g_ronda_actual (game s)) (prices s)
                       @ filter (\<lambda>p. p_ronda p = g_ronda_actual (game s)) (prices s') \<and>
         orders s' = orders s \<and> ledger s' = ledger s \<and> teams s' = teams s \<and>
         bonds s' = bonds s \<and>
         (\<forall>name. team_positions_and_cash s' name = team_positions_and_cash s name)"
proof -
  let ?r = "g_ronda_actual (game s)"
  from publish_prices_Inr [OF assms] obtain new where
    loop: "new_prices_loop now (game s) (events s) (round_ev_mkt (events s) ?r) (bonds s) []
             = Inr new" and
    s': "s' = s\<lparr>events := map (\<lambda>e. if e_round e = ?r then e\<lparr>e_publicado := True\<rparr> else e)
                              (events s),
                prices := filter (\<lambda>p. p_ronda p \<noteq> ?r) (prices s) @ new,
                game := (game s)\<lparr>g_estado := TRADING_ON\<rparr>\<rparr>"
    by blast
  from new_prices_loop_Inr [OF loop] have
    l: "list_all2 (\<lambda>b p. p_ronda p = ?r \<and> p_bond_id p = b_bond_id b \<and>
        p_y_efectiva p = effective_ytm (b_spread_bps b) (round_ev_mkt (events s) ?r)
                           (round_idios (events s) ?r b) \<and>
        price_bond_mid b (p_y_efectiva p) (g_fraccion_anio (game s)) (?r - 1)
          = Inr (p_precio_mid p)) (bonds s) new"
    by simp
  note f = filter_round_new [OF l]
  have p: "prices s' = filter (\<lambda>p. p_ronda p \<noteq> ?r) (prices s) @ new"
    by (simp add: s')
  have keep: "filter (\<lambda>p. p_ronda p = ?r) (prices s') = new"
    unfolding p by (simp add: f)
  have other: "filter (\<lambda>p. p_ronda p \<noteq> ?r) (prices s') = filter (\<lambda>p. p_ronda p \<noteq> ?r) (prices s)"
    unfolding p by (simp add: f)
  have frame: "orders s' = orders s" "ledger s' = ledger s" "teams s' = teams s"
    "bonds s' = bonds s"
    by (simp_all add: s')
  have tpc: "team_positions_and_cash s' name = team_positions_and_cash s name" for name
    by (simp add: team_positions_and_cash_def team_get_def frame split: option.splits)
  from loop keep other p frame tpc show ?thesis by simp
qed

lemma price_bond_mid_Z: "price_bond_mid bond_Z 0 (1 / 4) 0 = Inr 100"
  by (simp add: price_bond_mid_def bond_Z_def Let_def)

lemma publish_state_fields:
  "game publish_state = demo_game" "bonds publish_state = [bond_Z]"
  "events publish_state = publish_events" "prices publish_state = [price_Z_r1, price_Z_r2]"
  "orders publish_state = [order_buy10]" "ledger publish_state = []"
  "teams publish_state = [team_alfa, team_beta]"
  by (simp_all add: publish_state_def)

lemma demo_game_fields:
  "g_ronda_actual demo_game = 1" "g_fraccion_anio demo_game = 1 / 4"
  "g_bid_bp demo_game = 20" "g_ask_bp demo_game = 20" "g_comision_bps demo_game = 10"
  "g_rondas_totales demo_game = 3" "g_estado demo_game = TRADING_ON"
  by (simp_all add: demo_game_def)

lemma round_ev_mkt_publish: "round_ev_mkt publish_events 1 = - 25"
  by (simp add: round_ev_mkt_def publish_events_def)

lemma round_idios_publish: "round_idios publish_events 1 bond_Z = 25"
  by (simp add: round_idios_def publish_events_def bond_Z_def str_opt_def)

lemma bond_Z_fields: "b_spread_bps bond_Z = 0" "b_bond_id bond_Z = ''Z''"
  by (simp_all add: bond_Z_def)

lemma new_prices_publish_state:
  "new_prices_loop ''t5'' demo_game publish_events (- 25) [bond_Z] [] = Inr [published_Z]"
  by (simp add: demo_game_fields round_idios_publish effective_ytm_def bond_Z_fields
        price_bond_mid_Z bid_ask_from_mid_def Let_def published_Z_def)

lemma publish_publish_state:
  "publish_prices_for_round ''t5'' publish_state =
     Inr (publish_state\<lparr>events := map (\<lambda>e. if e_round e = 1 then e\<lparr>e_publicado := True\<rparr> else e)
                                      publish_events,
                        prices := [price_Z_r2, published_Z],
                        game := demo_game\<lparr>g_estado := TRADING_ON\<rparr>\<rparr>)"
  by (simp add: publish_prices_for_round_def publish_state_fields demo_game_fields Let_def
        round_ev_mkt_publish new_prices_publish_state price_Z_r1_def price_Z_r2_def
      del: new_prices_loop.simps)

theorem publish_prices_for_round_frame_witness:
  "publish_prices_for_round ''t5'' publish_state =
     Inr (publish_state\<lparr>events := map (\<lambda>e. if e_round e = 1 then e\<lparr>e_publicado := True\<rparr> else e)
                                      publish_events,
                        prices := [price_Z_r2, published_Z],
                        game := demo_game\<lparr>g_estado := TRADING_ON\<rparr>\<rparr>) \<and>
   filter (\<lambda>p. p_ronda p \<noteq> 1) [price_Z_r2, published_Z] = [price_Z_r2] \<and>
   filter (\<lambda>p. p_ronda p = 1) [price_Z_r2, published_Z] = [published_Z] \<and>
   filter (\<lambda>p. p_ronda p \<noteq> 1) (prices publish_state) = [price_Z_r2] \<and>
   orders publish_state = [order_buy10]"
proof -
  note w = publish_prices_for_round_frame [OF publish_publish_state]
  have o: "filter (\<lambda>p. p_ronda p \<noteq> 1) [price_Z_r2, published_Z]
             = filter (\<lambda>p. p_ronda p \<noteq> 1) (prices publish_state)"
    using w [THEN conjunct2, THEN conjunct1]
    by (simp add: publish_state_fields demo_game_fields)
  have old: "filter (\<lambda>p. p_ronda p \<noteq> 1) (prices publish_state) = [price_Z_r2]"
    by (simp add: publish_state_fields price_Z_r1_def price_Z_r2_def)
  have n: "filter (\<lambda>p. p_ronda p = 1) [price_Z_r2, published_Z] = [published_Z]"
    by (simp add: price_Z_r2_def published_Z_def)
  from publish_publish_state o old n show ?thesis
    by (simp add: publish_state_fields)
qed


text \<open>
  C8. In the prices published for round \<open>r\<close>, bond by bond, the stored effective yield,
  which is the yield the bond is priced with, is the bond's spread plus the sum of the
  deltas of all MARKET events of round \<open>r\<close> plus the sum of the impacts of all IDIOS
  events of round \<open>r\<close> whose bond identifier (as text) is the bond's, over 10000; there
  is no base rate term. Events add up: one more MARKET event of the round raises the
  market sum by its delta, one more IDIOS event of the round and bond raises the bond's
  sum by its impact.
\<close>

theorem effective_yield_of_round:
  assumes "publish_prices_for_round now s = Inr s'"
  shows "list_all2
           (\<lambda>b p. p_bond_id p = b_bond_id b \<and>
              p_y_efectiva p =
                (b_spread_bps b
                 + sum_list (map e_delta_tasa_bps
                     (filter (\<lambda>e. e_round e = g_ronda_actual (game s) \<and> e_tipo e = MARKET)
                        (events s)))
                 + sum_list (map e_impacto_bps
                     (filter (\<lambda>e. e_round e = g_ronda_actual (game s) \<and> e_tipo e = IDIOS \<and>
                                   str_opt (e_bond_id e) = b_bond_id b) (events s)))) / 10000 \<and>
              price_bond_mid b (p_y_efectiva p) (g_fraccion_anio (game s))
                  (g_ronda_actual (game s) - 1) = Inr (p_precio_mid p))
           (bonds s) (filter (\<lambda>p. p_ronda p = g_ronda_actual (game s)) (prices s')) \<and>
         (\<forall>e. e_round e = g_ronda_actual (game s) \<and> e_tipo e = MARKET \<longrightarrow>
            round_ev_mkt (events s @ [e]) (g_ronda_actual (game s))
              = round_ev_mkt (events s) (g_ronda_actual (game s)) + e_delta_tasa_bps e) \<and>
         (\<forall>e b. e_round e = g_ronda_actual (game s) \<and> e_tipo e = IDIOS \<and>
                 str_opt (e_bond_id e) = b_bond_id b \<longrightarrow>
            round_idios (events s @ [e]) (g_ronda_actual (game s)) b
              = round_idios (events s) (g_ronda_actual (game s)) b + e_impacto_bps e)"
proof -
  let ?r = "g_ronda_actual (game s)"
  from publish_prices_Inr [OF assms] obtain new where
    loop: "new_prices_loop now (game s) (events s) (round_ev_mkt (events s) ?r) (bonds s) []
             = Inr new" and
    s': "s' = s\<lparr>events := map (\<lambda>e. if e_round e = ?r then e\<lparr>e_publicado := True\<rparr> else e)
                              (events s),
                prices := filter (\<lambda>p. p_ronda p \<noteq> ?r) (prices s) @ new,
                game := (game s)\<lparr>g_estado := TRADING_ON\<rparr>\<rparr>"
    by blast
  from new_prices_loop_Inr [OF loop] have
    l: "list_all2 (\<lambda>b p. p_ronda p = ?r \<and> p_bond_id p = b_bond_id b \<and>
        p_y_efectiva p = effective_ytm (b_spread_bps b) (round_ev_mkt (events s) ?r)
                           (round_idios (events s) ?r b) \<and>
        price_bond_mid b (p_y_efectiva p) (g_fraccion_anio (game s)) (?r - 1)
          = Inr (p_precio_mid p)) (bonds s) new"
    by simp
  have keep: "filter (\<lambda>p. p_ronda p = ?r) (prices s') = new"
    by (simp add: s' filter_round_new [OF l])
  have yields: "list_all2
           (\<lambda>b p. p_bond_id p = b_bond_id b \<and>
              p_y_efectiva p =
                (b_spread_bps b
                 + sum_list (map e_delta_tasa_bps
                     (filter (\<lambda>e. e_round e = ?r \<and> e_tipo e = MARKET) (events s)))
                 + sum_list (map e_impacto_bps
                     (filter (\<lambda>e. e_round e = ?r \<and> e_tipo e = IDIOS \<and>
                                   str_opt (e_bond_id e) = b_bond_id b) (events s)))) / 10000 \<and>
              price_bond_mid b (p_y_efectiva p) (g_fraccion_anio (game s)) (?r - 1)
                = Inr (p_precio_mid p))
           (bonds s) new"
    by (rule list_all2_mono [OF l])
       (simp add: effective_ytm_def round_ev_mkt_def round_idios_def)
  have mkt: "round_ev_mkt (events s @ [e]) ?r = round_ev_mkt (events s) ?r + e_delta_tasa_bps e"
    if "e_round e = ?r \<and> e_tipo e = MARKET" for e
    using that by (simp add: round_ev_mkt_def)
  have idi: "round_idios (events s @ [e]) ?r b = round_idios (events s) ?r b + e_impacto_bps e"
    if "e_round e = ?r \<and> e_tipo e = IDIOS \<and> str_opt (e_bond_id e) = b_bond_id b" for e b
    using that by (simp add: round_idios_def)
  from yields mkt idi show ?thesis unfolding keep by blast
qed

theorem effective_yield_of_round_witness:
  "publish_prices_for_round ''t5'' publish_state =
     Inr (publish_state\<lparr>events := map (\<lambda>e. if e_round e = 1 then e\<lparr>e_publicado := True\<rparr> else e)
                                      publish_events,
                        prices := [price_Z_r2, published_Z],
                        game := demo_game\<lparr>g_estado := TRADING_ON\<rparr>\<rparr>) \<and>
   p_y_efectiva published_Z = (0 + (75 + - 100) + 25) / 10000 \<and>
   price_bond_mid bond_Z (p_y_efectiva published_Z) (1 / 4) 0 = Inr (p_precio_mid published_Z)"
proof -
  have r: "p_ronda price_Z_r2 = 2" "p_ronda published_Z = 1"
    by (simp_all add: price_Z_r2_def published_Z_def)
  have "p_y_efectiva published_Z = (0 + (75 + - 100) + 25) / 10000 \<and>
        price_bond_mid bond_Z (p_y_efectiva published_Z) (1 / 4) 0
          = Inr (p_precio_mid published_Z)"
    using effective_yield_of_round [OF publish_publish_state, THEN conjunct1]
    by (clarsimp simp add: publish_state_fields demo_game_fields r bond_Z_fields
          publish_events_def str_opt_def)
  with publish_publish_state show ?thesis by blast
qed

lemma price_bond_mid_raises:
  assumes f: "b_frecuencia_anual bond = f" "f \<noteq> 0"
    and z: "1 + y / real_of_int f = 0"
  shows "price_bond_mid bond y q e = Inl ZeroDivisionError"
proof -
  have loop: "pv_loop C (y / real_of_int f) [1..<Suc N] 0 = Inl ZeroDivisionError"
    if "1 \<le> N" for C N
    using z that by (simp add: upt_conv_Cons del: upt_Suc)
  have N: "1 \<le> nat (max 1 x)" for x :: int
    by simp
  show ?thesis
    unfolding price_bond_mid_def Let_def by (simp only: f if_False loop [OF N] sum.case)
qed

lemma publish_prices_phase:
  "publish_prices_for_round now s = Inr s' \<Longrightarrow> g_estado (game s') = TRADING_ON"
  by (auto simp: publish_prices_for_round_def Let_def split: sum.splits)

lemma publish_prices_no_bonds:
  "bonds s = [] \<Longrightarrow>
     publish_prices_for_round now s =
       Inr (s\<lparr>events := map (\<lambda>e. if e_round e = g_ronda_actual (game s)
                                   then e\<lparr>e_publicado := True\<rparr> else e) (events s),
              prices := filter (\<lambda>p. p_ronda p \<noteq> g_ronda_actual (game s)) (prices s),
              game := (game s)\<lparr>g_estado := TRADING_ON\<rparr>\<rparr>)"
  by (simp add: publish_prices_for_round_def Let_def)

lemma new_prices_loop_phase:
  "new_prices_loop now (g\<lparr>g_estado := ph\<rparr>) evs m bs acc = new_prices_loop now g evs m bs acc"
  by (induction bs arbitrary: acc) (simp_all add: Let_def split: sum.splits prod.splits)

lemma publish_prices_any_phase:
  "(\<exists>s'. publish_prices_for_round now (s\<lparr>game := (game s)\<lparr>g_estado := ph\<rparr>\<rparr>) = Inr s')
     = (\<exists>s'. publish_prices_for_round now s = Inr s')"
  by (simp add: publish_prices_for_round_def Let_def new_prices_loop_phase split: sum.splits)

text \<open>
  C10. The claim has \<open>publish_prices_for_round\<close> succeed on every document. On a document
  in the lobby whose bond B1 gets the effective yield \<open>-2\<close> (spread 50 bps, market event
  of \<open>-20050\<close> bps) the pricing of the bond divides by zero and the call raises: no
  price is installed and the phase is not changed. This is the unguarded division of
  \<open>price_bond_mid\<close>. The lemmas above give what holds otherwise: no phase is checked
  (\<open>publish_prices_any_phase\<close>), a call that returns leaves \<open>TRADING_ON\<close>
  (\<open>publish_prices_phase\<close>), and without bonds the call always returns and installs the
  empty price set for the round (\<open>publish_prices_no_bonds\<close>).
\<close>

theorem publish_prices_for_round_zero_division:
  "g_estado (game crash_state) = LOBBY \<and> bonds crash_state \<noteq> [] \<and>
   publish_prices_for_round ''t5'' crash_state = Inl ZeroDivisionError"
proof -
  have y: "effective_ytm (b_spread_bps bond_B1) (- 20050) 0 = - 2"
    by (simp add: effective_ytm_def bond_B1_def)
  have p: "price_bond_mid bond_B1 (- 2) q e = Inl ZeroDivisionError" for q e
    by (rule price_bond_mid_raises [where f = 2]) (simp_all add: bond_B1_def)
  have m: "round_ev_mkt (events crash_state) 1 = - 20050"
    by (simp add: round_ev_mkt_def crash_state_def)
  have i: "round_idios (events crash_state) 1 bond_B1 = 0"
    by (simp add: round_idios_def crash_state_def)
  have g: "g_ronda_actual (game crash_state) = 1" "bonds crash_state = [bond_B1]"
    "g_estado (game crash_state) = LOBBY"
    by (simp_all add: crash_state_def demo_game_def)
  show ?thesis
    by (simp add: publish_prices_for_round_def Let_def g m i y p)
qed

section \<open>Properties of the moderator panel\<close>
































section \<open>Properties of the leaderboard\<close>

lemma fold_add_sum_list:
  "fold (\<lambda>x v. v + f x) xs (a :: real) = a + sum_list (map f xs)"
  by (induction xs arbitrary: a) (simp_all add: add.assoc)

lemma team_row_fields:
  "r_Equipo (team_row s pm t) = t_team_name t"
  "r_Cash (team_row s pm t) = snd (team_positions_and_cash s (t_team_name t))"
  "r_Valor_Posiciones (team_row s pm t) =
     sum_list (map (\<lambda>(b, q). q * dict_get pm b 0)
                   (fst (team_positions_and_cash s (t_team_name t))))"
  "r_Valor_Portafolio (team_row s pm t) =
     r_Cash (team_row s pm t) + r_Valor_Posiciones (team_row s pm t)"
proof -
  have f: "(\<lambda>(b, q) v. v + q * dict_get pm b 0) = (\<lambda>x v. v + (case x of (b, q) \<Rightarrow> q * dict_get pm b 0))"
    by (auto simp: fun_eq_iff)
  show "r_Equipo (team_row s pm t) = t_team_name t"
    "r_Cash (team_row s pm t) = snd (team_positions_and_cash s (t_team_name t))"
    "r_Valor_Posiciones (team_row s pm t) =
     sum_list (map (\<lambda>(b, q). q * dict_get pm b 0)
                   (fst (team_positions_and_cash s (t_team_name t))))"
    "r_Valor_Portafolio (team_row s pm t) =
     r_Cash (team_row s pm t) + r_Valor_Posiciones (team_row s pm t)"
    by (simp_all add: team_row_def Let_def f fold_add_sum_list split: prod.splits)
qed

lemma map_of_fold_update:
  "map_of (fold (\<lambda>p d. AList.update (f p) (g p) d) ps d) k =
     (case map_of (rev (map (\<lambda>p. (f p, g p)) ps)) k of
        None \<Rightarrow> map_of d k
      | Some v \<Rightarrow> Some v)"
  by (induction ps arbitrary: d) (auto simp: update_conv' map_add_def split: option.splits)

lemma get_prices_dict_lookup:
  "map_of (get_prices_dict s r) b =
     map_of (rev (map (\<lambda>p. (p_bond_id p, p_precio_mid p))
                      (filter (\<lambda>p. p_ronda p = r) (prices s)))) b"
  by (simp add: get_prices_dict_def map_of_fold_update split: option.splits)

text \<open>
  What the source fixes of the leaderboard. For every sort that rearranges the rows into
  descending order of the total value, the leaderboard of round \<open>r\<close> (the current round
  when none is given) holds exactly one row per registered team, ordered descending by
  total value; the row of a team carries its name, its reconstructed cash, and as total
  value that cash plus, over the bonds the team holds, the holding times the mid price
  published for the round and the bond (the last one stored), a bond without such a
  price counting 0. The order among rows of equal total value is decided inside
  \<^verbatim>\<open>sort_values\<close> and is not determined here.
\<close>

lemma compute_leaderboard_rows:
  assumes srt: "sorts_descending sort_values"
    and r: "r = (case ronda of None \<Rightarrow> g_ronda_actual (game s) | Some r' \<Rightarrow> r')"
  shows "mset (compute_leaderboard sort_values s ronda)
           = mset (map (team_row s (get_prices_dict s r)) (teams s)) \<and>
         sorted_wrt (\<lambda>a b. r_Valor_Portafolio b \<le> r_Valor_Portafolio a)
           (compute_leaderboard sort_values s ronda) \<and>
         (\<forall>t. r_Equipo (team_row s (get_prices_dict s r) t) = t_team_name t \<and>
              r_Cash (team_row s (get_prices_dict s r) t)
                = snd (team_positions_and_cash s (t_team_name t)) \<and>
              r_Valor_Portafolio (team_row s (get_prices_dict s r) t)
                = snd (team_positions_and_cash s (t_team_name t))
                  + sum_list (map (\<lambda>(b, q). q *
                       (case map_of (rev (map (\<lambda>p. (p_bond_id p, p_precio_mid p))
                                              (filter (\<lambda>p. p_ronda p = r) (prices s)))) b of
                          None \<Rightarrow> 0
                        | Some mid \<Rightarrow> mid))
                      (fst (team_positions_and_cash s (t_team_name t)))))"
proof -
  let ?rows = "map (team_row s (get_prices_dict s r)) (teams s)"
  have cl: "compute_leaderboard sort_values s ronda = (if ?rows = [] then [] else sort_values ?rows)"
    by (simp add: compute_leaderboard_def Let_def r)
  from srt have m: "mset (sort_values ?rows) = mset ?rows"
    and o: "sorted_wrt (\<lambda>a b. r_Valor_Portafolio b \<le> r_Valor_Portafolio a) (sort_values ?rows)"
    by (simp_all add: sorts_descending_def)
  have 1: "mset (compute_leaderboard sort_values s ronda) = mset ?rows"
    unfolding cl using m by (cases "?rows = []") simp_all
  have 2: "sorted_wrt (\<lambda>a b. r_Valor_Portafolio b \<le> r_Valor_Portafolio a)
             (compute_leaderboard sort_values s ronda)"
    unfolding cl using o by (cases "?rows = []") simp_all
  have g: "dict_get (get_prices_dict s r) b 0 =
             (case map_of (rev (map (\<lambda>p. (p_bond_id p, p_precio_mid p))
                                    (filter (\<lambda>p. p_ronda p = r) (prices s)))) b of
                None \<Rightarrow> 0 | Some mid \<Rightarrow> mid)" for b
    by (simp add: dict_get_def get_prices_dict_lookup)
  have 3: "r_Equipo (team_row s (get_prices_dict s r) t) = t_team_name t \<and>
              r_Cash (team_row s (get_prices_dict s r) t)
                = snd (team_positions_and_cash s (t_team_name t)) \<and>
              r_Valor_Portafolio (team_row s (get_prices_dict s r) t)
                = snd (team_positions_and_cash s (t_team_name t))
                  + sum_list (map (\<lambda>(b, q). q *
                       (case map_of (rev (map (\<lambda>p. (p_bond_id p, p_precio_mid p))
                                              (filter (\<lambda>p. p_ronda p = r) (prices s)))) b of
                          None \<Rightarrow> 0
                        | Some mid \<Rightarrow> mid))
                      (fst (team_positions_and_cash s (t_team_name t))))" for t
    by (simp only: team_row_fields g simp_thms)
  from 1 2 3 show ?thesis by blast
qed

end
